theory Spec2Isabelle
  imports Complex_Main "HOL-Library.Log_Nat"
begin

section \<open>Data model of \<open>core/BoundingRect.ts\<close>\<close>

text \<open>
  JavaScript numbers are IEEE 754 doubles. The class is read twice. The first reading is
  over the reals: the exact arithmetic of the rectangle algebra, with no rounding, no
  \<open>NaN\<close> and no infinities; the only infinity the code itself writes is the initial value
  of \<open>dMin\<close> in \<open>intersect\<close>, modelled as \<open>None\<close> of a \<open>real option\<close>. The second
  reading, in the section on double precision, is over a model of the doubles, where each
  sum, difference and product is rounded and \<open>NaN\<close> and the infinities propagate; it
  covers the constructor, \<open>contain\<close>, \<open>union\<close> and the static \<open>applyTransform\<close>.
\<close>

text \<open>\<open>PointLike\<close>: an object with the two numeric fields \<open>x\<close> and \<open>y\<close>.\<close>

record Point =
  pt_x :: real
  pt_y :: real

text \<open>
  \<open>RectLike\<close>: the four numeric fields \<open>x\<close>, \<open>y\<close>, \<open>width\<close>, \<open>height\<close>.
  The class \<open>BoundingRect\<close> has exactly these fields.
\<close>

record RectLike =
  rect_x :: real
  rect_y :: real
  rect_width :: real
  rect_height :: real

type_synonym BoundingRect = RectLike

text \<open>
  An argument of type \<open>RectLike\<close> is either an instance of the class or a plain object;
  \<open>intersect\<close> tells them apart with \<open>instanceof\<close>.
\<close>

datatype RectArg = Instance BoundingRect | Plain RectLike

text \<open>\<open>matrix.MatrixArray\<close>: the six coefficients \<open>m[0]\<close> .. \<open>m[5]\<close>.\<close>

record MatrixArray =
  m0 :: real
  m1 :: real
  m2 :: real
  m3 :: real
  m4 :: real
  m5 :: real

text \<open>The module-level scratch points \<open>minTv\<close> and \<open>maxTv\<close>, which outlive a call.\<close>

record Scratch =
  minTv :: Point
  maxTv :: Point

section \<open>The collaborators \<open>Point\<close> and \<open>matrix\<close>\<close>

text \<open>
  Modelled from the spec: \<open>Point.set(point, x, y)\<close> of \<open>core/Point.ts\<close>, which is not
  among the sources; the static helper that stores both coordinates.
\<close>

definition Point_set :: "Point \<Rightarrow> real \<Rightarrow> real \<Rightarrow> Point" where
  "Point_set p x y = p\<lparr>pt_x := x, pt_y := y\<rparr>"

text \<open>
  Modelled from the spec: \<open>Point.copy(dst, src)\<close> of \<open>core/Point.ts\<close>, which is not among
  the sources; the static helper that copies both coordinates of \<open>src\<close> into \<open>dst\<close>.
\<close>

definition Point_copy :: "Point \<Rightarrow> Point \<Rightarrow> Point" where
  "Point_copy dst src = dst\<lparr>pt_x := pt_x src, pt_y := pt_y src\<rparr>"

text \<open>
  Modelled from the spec: the in-place \<open>transform(matrix)\<close> of \<open>core/Point.ts\<close>, which is
  not among the sources. The matrix \<open>[a, b, c, d, tx, ty]\<close> stands for
  \<open>x' = a*x + c*y + tx\<close>, \<open>y' = b*x + d*y + ty\<close>.
\<close>

definition Point_transform :: "Point \<Rightarrow> MatrixArray \<Rightarrow> Point" where
  "Point_transform p m =
     p\<lparr>pt_x := m0 m * pt_x p + m2 m * pt_y p + m4 m,
       pt_y := m1 m * pt_x p + m3 m * pt_y p + m5 m\<rparr>"

text \<open>
  Modelled from the spec: \<open>matrix.create()\<close> of \<open>core/matrix.ts\<close>, which is not among the
  sources; it yields the identity.
\<close>

definition matrix_create :: MatrixArray where
  "matrix_create = \<lparr>m0 = 1, m1 = 0, m2 = 0, m3 = 1, m4 = 0, m5 = 0\<rparr>"

text \<open>
  Modelled from the spec: \<open>matrix.translate(out, in, [dx, dy])\<close> of \<open>core/matrix.ts\<close>,
  which is not among the sources; it post-composes a translation onto \<open>in\<close>.
\<close>

definition matrix_translate :: "MatrixArray \<Rightarrow> real \<times> real \<Rightarrow> MatrixArray" where
  "matrix_translate a v = a\<lparr>m4 := m4 a + fst v, m5 := m5 a + snd v\<rparr>"

text \<open>
  Modelled from the spec: \<open>matrix.scale(out, in, [sx, sy])\<close> of \<open>core/matrix.ts\<close>, which
  is not among the sources; it post-composes a scaling onto \<open>in\<close>.
\<close>

definition matrix_scale :: "MatrixArray \<Rightarrow> real \<times> real \<Rightarrow> MatrixArray" where
  "matrix_scale a v =
     \<lparr>m0 = m0 a * fst v, m1 = m1 a * snd v, m2 = m2 a * fst v,
      m3 = m3 a * snd v, m4 = m4 a * fst v, m5 = m5 a * snd v\<rparr>"

section \<open>The class \<open>BoundingRect\<close>\<close>

subsection \<open>Constructor and \<open>create\<close>\<close>

text \<open>
  Over the reals \<open>x + width\<close> is the exact sum; \<open>new_BoundingRect_f64\<close> below is the same
  constructor with the rounded sum.
\<close>

definition new_BoundingRect :: "real \<Rightarrow> real \<Rightarrow> real \<Rightarrow> real \<Rightarrow> BoundingRect" where
  "new_BoundingRect x y width height =
     (let (x1, width1) = (if width < 0 then (x + width, - width) else (x, width));
          (y1, height1) = (if height < 0 then (y + height, - height) else (y, height))
      in \<lparr>rect_x = x1, rect_y = y1, rect_width = width1, rect_height = height1\<rparr>)"

definition create :: "RectLike \<Rightarrow> BoundingRect" where
  "create rect = new_BoundingRect (rect_x rect) (rect_y rect) (rect_width rect) (rect_height rect)"

subsection \<open>\<open>union\<close>, \<open>copy\<close>, \<open>clone\<close>, \<open>contain\<close>\<close>

text \<open>
  \<open>union\<close> assigns \<open>width\<close>, \<open>height\<close>, \<open>x\<close>, \<open>y\<close> in this order; the model keeps the
  four assignments, each reading the object as the assignments before it left it.
  Over the reals the sums and the difference are exact; \<open>union_f64\<close> below is the same
  method with each of them rounded.
\<close>

definition union_rect :: "BoundingRect \<Rightarrow> BoundingRect \<Rightarrow> BoundingRect" where
  "union_rect this other =
     (let x = min (rect_x other) (rect_x this);
          y = min (rect_y other) (rect_y this);
          this1 = this\<lparr>rect_width :=
                    max (rect_x other + rect_width other) (rect_x this + rect_width this) - x\<rparr>;
          this2 = this1\<lparr>rect_height :=
                    max (rect_y other + rect_height other) (rect_y this1 + rect_height this1) - y\<rparr>;
          this3 = this2\<lparr>rect_x := x\<rparr>
      in this3\<lparr>rect_y := y\<rparr>)"

definition copy_rect :: "BoundingRect \<Rightarrow> RectLike \<Rightarrow> BoundingRect" where
  "copy_rect this other =
     this\<lparr>rect_x := rect_x other, rect_y := rect_y other,
          rect_width := rect_width other, rect_height := rect_height other\<rparr>"

definition clone :: "BoundingRect \<Rightarrow> BoundingRect" where
  "clone this = new_BoundingRect (rect_x this) (rect_y this) (rect_width this) (rect_height this)"

definition contain :: "BoundingRect \<Rightarrow> real \<Rightarrow> real \<Rightarrow> bool" where
  "contain rect x y \<longleftrightarrow>
     x \<ge> rect_x rect \<and> x \<le> rect_x rect + rect_width rect
     \<and> y \<ge> rect_y rect \<and> y \<le> rect_y rect + rect_height rect"

text \<open>The invariant of the data model: both extents are non-negative.\<close>

definition rect_inv :: "RectLike \<Rightarrow> bool" where
  "rect_inv r \<longleftrightarrow> rect_width r \<ge> 0 \<and> rect_height r \<ge> 0"

text \<open>
  The point set of a box given by an origin and possibly negative extents: on each axis
  the points between the origin and the origin plus the extent, in either order.
\<close>

definition in_box :: "real \<Rightarrow> real \<Rightarrow> real \<Rightarrow> real \<Rightarrow> real \<Rightarrow> real \<Rightarrow> bool" where
  "in_box x y width height px py \<longleftrightarrow>
     min x (x + width) \<le> px \<and> px \<le> max x (x + width)
     \<and> min y (y + height) \<le> py \<and> py \<le> max y (y + height)"

subsection \<open>\<open>calculateTransform\<close>\<close>

definition calculateTransform :: "BoundingRect \<Rightarrow> RectLike \<Rightarrow> MatrixArray" where
  "calculateTransform a b =
     (let sx = rect_width b / rect_width a;
          sy = rect_height b / rect_height a;
          m = matrix_create;
          m = matrix_translate m (- rect_x a, - rect_y a);
          m = matrix_scale m (sx, sy);
          m = matrix_translate m (rect_x b, rect_y b)
      in m)"

subsection \<open>Static \<open>applyTransform\<close>\<close>

text \<open>
  The fast path: four assignments to \<open>target\<close>. None of them reads a field that an
  earlier one wrote, so the result is the same when \<open>target\<close> and \<open>source\<close> are one object.
\<close>

definition applyTransform_fast :: "BoundingRect \<Rightarrow> BoundingRect \<Rightarrow> MatrixArray \<Rightarrow> BoundingRect" where
  "applyTransform_fast target source m =
     (let sx = m0 m; sy = m3 m; tx = m4 m; ty = m5 m
      in target\<lparr>rect_x := rect_x source * sx + tx,
                rect_y := rect_y source * sy + ty,
                rect_width := rect_width source * sx,
                rect_height := rect_height source * sy\<rparr>)"

text \<open>
  The general path. The scratch points \<open>lt\<close>, \<open>rb\<close>, \<open>lb\<close>, \<open>rt\<close> are written in full
  from \<open>source\<close> before anything is read from them and before \<open>target\<close> is written, so
  they are local values here.
\<close>

definition applyTransform_general :: "BoundingRect \<Rightarrow> BoundingRect \<Rightarrow> MatrixArray \<Rightarrow> BoundingRect" where
  "applyTransform_general target source m =
     (let lt = \<lparr>pt_x = rect_x source, pt_y = rect_y source\<rparr>;
          lb = \<lparr>pt_x = rect_x source, pt_y = rect_y source + rect_height source\<rparr>;
          rt = \<lparr>pt_x = rect_x source + rect_width source, pt_y = rect_y source\<rparr>;
          rb = \<lparr>pt_x = rect_x source + rect_width source,
                pt_y = rect_y source + rect_height source\<rparr>;
          lt = Point_transform lt m;
          rt = Point_transform rt m;
          rb = Point_transform rb m;
          lb = Point_transform lb m;
          target1 = target\<lparr>rect_x := min (min (min (pt_x lt) (pt_x rb)) (pt_x lb)) (pt_x rt)\<rparr>;
          target2 = target1\<lparr>rect_y := min (min (min (pt_y lt) (pt_y rb)) (pt_y lb)) (pt_y rt)\<rparr>;
          maxX = max (max (max (pt_x lt) (pt_x rb)) (pt_x lb)) (pt_x rt);
          maxY = max (max (max (pt_y lt) (pt_y rb)) (pt_y lb)) (pt_y rt);
          target3 = target2\<lparr>rect_width := maxX - rect_x target2\<rparr>
      in target3\<lparr>rect_height := maxY - rect_y target3\<rparr>)"

text \<open>
  A falsy \<open>m\<close> is \<open>None\<close>. There \<open>target\<close> receives the fields of \<open>source\<close> unless both
  are the same object, in which case it holds them already.
\<close>

definition applyTransform_static ::
  "BoundingRect \<Rightarrow> BoundingRect \<Rightarrow> MatrixArray option \<Rightarrow> BoundingRect" where
  "applyTransform_static target source mo =
     (case mo of
        None \<Rightarrow> copy_rect target source
      | Some m \<Rightarrow>
          if m1 m < 1 / 100000 \<and> m2 m < 1 / 100000
          then applyTransform_fast target source m
          else applyTransform_general target source m)"

text \<open>The method \<open>applyTransform(m)\<close> calls the static one with \<open>this\<close> twice.\<close>

definition applyTransform :: "BoundingRect \<Rightarrow> MatrixArray option \<Rightarrow> BoundingRect" where
  "applyTransform this mo = applyTransform_static this this mo"

subsection \<open>\<open>intersect\<close>\<close>

text \<open>The comparison \<open>d < dMin\<close>, where \<open>dMin\<close> may still be \<open>Infinity\<close> (\<open>None\<close>).\<close>

fun lt_dMin :: "real \<Rightarrow> real option \<Rightarrow> bool" where
  "lt_dMin d None = True"
| "lt_dMin d (Some v) = (d < v)"

text \<open>
  \<open>intersect\<close> takes the scratch points, \<open>this\<close>, the argument \<open>b\<close> (\<open>None\<close> when falsy)
  and the optional \<open>mtv\<close>; it returns the boolean, the \<open>mtv\<close> object as the call leaves
  it, and the scratch points.
\<close>

definition intersect ::
  "Scratch \<Rightarrow> BoundingRect \<Rightarrow> RectArg option \<Rightarrow> Point option \<Rightarrow> bool \<times> Point option \<times> Scratch" where
  "intersect sc a bo mtv =
     (case bo of
        None \<Rightarrow> (False, mtv, sc)
      | Some b0 \<Rightarrow>
         (let b = (case b0 of Instance r \<Rightarrow> r | Plain r \<Rightarrow> create r);
              ax0 = rect_x a;
              ax1 = rect_x a + rect_width a;
              ay0 = rect_y a;
              ay1 = rect_y a + rect_height a;
              bx0 = rect_x b;
              bx1 = rect_x b + rect_width b;
              by0 = rect_y b;
              by1 = rect_y b + rect_height b;
              overlap = (\<not> (ax1 < bx0 \<or> bx1 < ax0 \<or> ay1 < by0 \<or> by1 < ay0))
          in case mtv of
               None \<Rightarrow> (overlap, None, sc)
             | Some p \<Rightarrow>
                (let dMin = None;
                     dMax = 0;
                     d0 = \<bar>ax1 - bx0\<bar>;
                     d1 = \<bar>bx1 - ax0\<bar>;
                     d2 = \<bar>ay1 - by0\<bar>;
                     d3 = \<bar>by1 - ay0\<bar>;
                     dx = min d0 d1;
                     dy = min d2 d3;
                     (dMin, dMax, sc) =
                       (if ax1 < bx0 \<or> bx1 < ax0 then
                          (if dx > dMax then
                             (dMin, dx,
                              if d0 < d1 then sc\<lparr>maxTv := Point_set (maxTv sc) (- d0) 0\<rparr>
                              else sc\<lparr>maxTv := Point_set (maxTv sc) d1 0\<rparr>)
                           else (dMin, dMax, sc))
                        else
                          (if lt_dMin dx dMin then
                             (Some dx, dMax,
                              if d0 < d1 then sc\<lparr>minTv := Point_set (minTv sc) d0 0\<rparr>
                              else sc\<lparr>minTv := Point_set (minTv sc) (- d1) 0\<rparr>)
                           else (dMin, dMax, sc)));
                     (dMin, dMax, sc) =
                       (if ay1 < by0 \<or> by1 < ay0 then
                          (if dy > dMax then
                             (dMin, dy,
                              if d2 < d3 then sc\<lparr>maxTv := Point_set (maxTv sc) 0 (- d2)\<rparr>
                              else sc\<lparr>maxTv := Point_set (maxTv sc) 0 d3\<rparr>)
                           else (dMin, dMax, sc))
                        else
                          (if lt_dMin dx dMin then
                             (Some dx, dMax,
                              if d2 < d3 then sc\<lparr>minTv := Point_set (minTv sc) 0 d2\<rparr>
                              else sc\<lparr>minTv := Point_set (minTv sc) 0 (- d3)\<rparr>)
                           else (dMin, dMax, sc)))
                 in (overlap, Some (Point_copy p (if overlap then minTv sc else maxTv sc)), sc))))"

section \<open>The class in double precision\<close>

text \<open>
  A double is a finite number \<open>m * 2 ^ e\<close>, written \<open>Fin m e\<close>, an infinity or \<open>NaN\<close>.
  The sign of zero is not modelled: no comparison, sum, product, minimum or maximum
  below tells the two zeros apart. A finite number has many pairs \<open>(m, e)\<close>; equality of
  doubles as the program sees it is \<open>feq\<close>, not the equality of the pairs.
\<close>

datatype f64 = Fin int int | PInf | NInf | NaN

text \<open>
  \<open>rne a k\<close> divides the non-negative \<open>a\<close> by \<open>2 ^ k\<close> and rounds to the nearest integer,
  a tie going to the even one.
\<close>

definition rne :: "int \<Rightarrow> nat \<Rightarrow> int" where
  "rne a k =
     (if k = 0 then a
      else (let q = a div 2 ^ k; r = a mod 2 ^ k; h = 2 ^ (k - 1)
            in if h < r \<or> (r = h \<and> odd q) then q + 1 else q))"

text \<open>
  \<open>round_f64 m e\<close> is the double nearest to the exact \<open>m * 2 ^ e\<close>: at most 53 bits of
  mantissa, no exponent below \<open>-1074\<close> (so small results are subnormal or zero), and
  an infinity when the rounded magnitude reaches \<open>2 ^ 1024\<close>.
\<close>

definition round_f64 :: "int \<Rightarrow> int \<Rightarrow> f64" where
  "round_f64 m e =
     (let a = \<bar>m\<bar>;
          k = max 0 (max (bitlen a - 53) (- 1074 - e));
          q = rne a (nat k);
          e' = e + k
      in if q = 0 then Fin 0 0
         else if bitlen q + e' > 1024 then (if m < 0 then NInf else PInf)
         else Fin (if m < 0 then - q else q) e')"

text \<open>
  The operators \<open>-a\<close>, \<open>a + b\<close>, \<open>a - b\<close> and \<open>a * b\<close> of the language: the exact result
  of two finite operands, rounded once.
\<close>

fun fneg :: "f64 \<Rightarrow> f64" where
  "fneg (Fin m e) = Fin (- m) e"
| "fneg PInf = NInf"
| "fneg NInf = PInf"
| "fneg NaN = NaN"

fun fadd :: "f64 \<Rightarrow> f64 \<Rightarrow> f64" where
  "fadd NaN b = NaN"
| "fadd a NaN = NaN"
| "fadd (Fin ma ea) (Fin mb eb) =
     (let e = min ea eb in round_f64 (ma * 2 ^ nat (ea - e) + mb * 2 ^ nat (eb - e)) e)"
| "fadd PInf NInf = NaN"
| "fadd NInf PInf = NaN"
| "fadd PInf b = PInf"
| "fadd a PInf = PInf"
| "fadd NInf b = NInf"
| "fadd a NInf = NInf"

definition fsub :: "f64 \<Rightarrow> f64 \<Rightarrow> f64" where
  "fsub a b = fadd a (fneg b)"

fun fmul :: "f64 \<Rightarrow> f64 \<Rightarrow> f64" where
  "fmul NaN b = NaN"
| "fmul a NaN = NaN"
| "fmul (Fin ma ea) (Fin mb eb) = round_f64 (ma * mb) (ea + eb)"
| "fmul (Fin m e) PInf = (if m = 0 then NaN else if m < 0 then NInf else PInf)"
| "fmul (Fin m e) NInf = (if m = 0 then NaN else if m < 0 then PInf else NInf)"
| "fmul PInf (Fin m e) = (if m = 0 then NaN else if m < 0 then NInf else PInf)"
| "fmul NInf (Fin m e) = (if m = 0 then NaN else if m < 0 then PInf else NInf)"
| "fmul PInf PInf = PInf"
| "fmul NInf NInf = PInf"
| "fmul PInf NInf = NInf"
| "fmul NInf PInf = NInf"

text \<open>
  The comparisons \<open>a < b\<close>, \<open>a <= b\<close>, \<open>a >= b\<close> and \<open>a === b\<close>: false as soon as an
  operand is \<open>NaN\<close>.
\<close>

fun flt :: "f64 \<Rightarrow> f64 \<Rightarrow> bool" where
  "flt NaN b = False"
| "flt a NaN = False"
| "flt (Fin ma ea) (Fin mb eb) =
     (let e = min ea eb in ma * 2 ^ nat (ea - e) < mb * 2 ^ nat (eb - e))"
| "flt PInf b = False"
| "flt a PInf = True"
| "flt NInf NInf = False"
| "flt NInf b = True"
| "flt a NInf = False"

definition fle :: "f64 \<Rightarrow> f64 \<Rightarrow> bool" where
  "fle a b \<longleftrightarrow> a \<noteq> NaN \<and> b \<noteq> NaN \<and> \<not> flt b a"

definition fge :: "f64 \<Rightarrow> f64 \<Rightarrow> bool" where
  "fge a b \<longleftrightarrow> fle b a"

definition feq :: "f64 \<Rightarrow> f64 \<Rightarrow> bool" where
  "feq a b \<longleftrightarrow> fle a b \<and> fle b a"

text \<open>
  \<open>Math.min\<close> and \<open>Math.max\<close>: \<open>NaN\<close> as soon as an argument is \<open>NaN\<close>. With four
  arguments they are the nested binary ones.
\<close>

definition fmin :: "f64 \<Rightarrow> f64 \<Rightarrow> f64" where
  "fmin a b = (if a = NaN \<or> b = NaN then NaN else if flt b a then b else a)"

definition fmax :: "f64 \<Rightarrow> f64 \<Rightarrow> f64" where
  "fmax a b = (if a = NaN \<or> b = NaN then NaN else if flt a b then b else a)"

text \<open>
  The literal \<open>0\<close>, the finite doubles, the exact value of a finite double (\<open>valof\<close> is
  only ever applied to finite doubles; elsewhere it is 0), and the pairs \<open>(m, e)\<close> that
  are doubles as they stand.
\<close>

definition f64_zero :: f64 where
  "f64_zero = Fin 0 0"

fun is_Fin :: "f64 \<Rightarrow> bool" where
  "is_Fin (Fin m e) = True"
| "is_Fin PInf = False"
| "is_Fin NInf = False"
| "is_Fin NaN = False"

fun valof :: "f64 \<Rightarrow> real" where
  "valof (Fin m e) = of_int m * 2 powi e"
| "valof PInf = 0"
| "valof NInf = 0"
| "valof NaN = 0"

definition valid_f64 :: "f64 \<Rightarrow> bool" where
  "valid_f64 d =
     (case d of
        Fin m e \<Rightarrow> bitlen \<bar>m\<bar> \<le> 53 \<and> - 1074 \<le> e \<and> bitlen \<bar>m\<bar> + e \<le> 1024
      | _ \<Rightarrow> True)"

text \<open>
  The objects with fields of type double.
\<close>

record Point_f64 =
  ptd_x :: f64
  ptd_y :: f64

record RectLike_f64 =
  rd_x :: f64
  rd_y :: f64
  rd_width :: f64
  rd_height :: f64

record MatrixArray_f64 =
  md0 :: f64
  md1 :: f64
  md2 :: f64
  md3 :: f64
  md4 :: f64
  md5 :: f64

text \<open>
  A rectangle of finite doubles read as a rectangle of reals.
\<close>

definition rect_of_f64 :: "RectLike_f64 \<Rightarrow> RectLike" where
  "rect_of_f64 r =
     \<lparr>rect_x = valof (rd_x r), rect_y = valof (rd_y r),
      rect_width = valof (rd_width r), rect_height = valof (rd_height r)\<rparr>"

text \<open>
  The constructor, \<open>union\<close> and \<open>contain\<close> in double arithmetic, statement by statement
  as over the reals.
\<close>

definition new_BoundingRect_f64 :: "f64 \<Rightarrow> f64 \<Rightarrow> f64 \<Rightarrow> f64 \<Rightarrow> RectLike_f64" where
  "new_BoundingRect_f64 x y width height =
     (let (x1, width1) = (if flt width f64_zero then (fadd x width, fneg width) else (x, width));
          (y1, height1) = (if flt height f64_zero then (fadd y height, fneg height) else (y, height))
      in \<lparr>rd_x = x1, rd_y = y1, rd_width = width1, rd_height = height1\<rparr>)"

definition union_f64 :: "RectLike_f64 \<Rightarrow> RectLike_f64 \<Rightarrow> RectLike_f64" where
  "union_f64 this other =
     (let x = fmin (rd_x other) (rd_x this);
          y = fmin (rd_y other) (rd_y this);
          this1 = this\<lparr>rd_width :=
                    fsub (fmax (fadd (rd_x other) (rd_width other))
                               (fadd (rd_x this) (rd_width this))) x\<rparr>;
          this2 = this1\<lparr>rd_height :=
                    fsub (fmax (fadd (rd_y other) (rd_height other))
                               (fadd (rd_y this1) (rd_height this1))) y\<rparr>;
          this3 = this2\<lparr>rd_x := x\<rparr>
      in this3\<lparr>rd_y := y\<rparr>)"

definition contain_f64 :: "RectLike_f64 \<Rightarrow> f64 \<Rightarrow> f64 \<Rightarrow> bool" where
  "contain_f64 rect x y \<longleftrightarrow>
     fge x (rd_x rect) \<and> fle x (fadd (rd_x rect) (rd_width rect))
     \<and> fge y (rd_y rect) \<and> fle y (fadd (rd_y rect) (rd_height rect))"

text \<open>
  Modelled from the spec: the in-place \<open>transform(matrix)\<close> of \<open>core/Point.ts\<close>, which is
  not among the sources, in double arithmetic: \<open>x' = a*x + c*y + tx\<close>,
  \<open>y' = b*x + d*y + ty\<close>, the sums taken from left to right.
\<close>

definition Point_transform_f64 :: "Point_f64 \<Rightarrow> MatrixArray_f64 \<Rightarrow> Point_f64" where
  "Point_transform_f64 p m =
     p\<lparr>ptd_x := fadd (fadd (fmul (md0 m) (ptd_x p)) (fmul (md2 m) (ptd_y p))) (md4 m),
       ptd_y := fadd (fadd (fmul (md1 m) (ptd_x p)) (fmul (md3 m) (ptd_y p))) (md5 m)\<rparr>"

text \<open>
  The four scratch points \<open>lt\<close>, \<open>rt\<close>, \<open>rb\<close>, \<open>lb\<close> of the general path after their
  \<open>transform(m)\<close>, and the condition that all their coordinates are finite.
\<close>

definition corners_f64 ::
  "RectLike_f64 \<Rightarrow> MatrixArray_f64 \<Rightarrow> Point_f64 \<times> Point_f64 \<times> Point_f64 \<times> Point_f64" where
  "corners_f64 source m =
     (let lt = \<lparr>ptd_x = rd_x source, ptd_y = rd_y source\<rparr>;
          lb = \<lparr>ptd_x = rd_x source, ptd_y = fadd (rd_y source) (rd_height source)\<rparr>;
          rt = \<lparr>ptd_x = fadd (rd_x source) (rd_width source), ptd_y = rd_y source\<rparr>;
          rb = \<lparr>ptd_x = fadd (rd_x source) (rd_width source),
                ptd_y = fadd (rd_y source) (rd_height source)\<rparr>
      in (Point_transform_f64 lt m, Point_transform_f64 rt m,
          Point_transform_f64 rb m, Point_transform_f64 lb m))"

definition finite_point :: "Point_f64 \<Rightarrow> bool" where
  "finite_point p \<longleftrightarrow> is_Fin (ptd_x p) \<and> is_Fin (ptd_y p)"

definition finite_corners :: "RectLike_f64 \<Rightarrow> MatrixArray_f64 \<Rightarrow> bool" where
  "finite_corners source m =
     (case corners_f64 source m of
        (lt, rt, rb, lb) \<Rightarrow> finite_point lt \<and> finite_point rt \<and> finite_point rb \<and> finite_point lb)"

text \<open>
  The two paths of the static \<open>applyTransform\<close> in double arithmetic.
\<close>

definition applyTransform_fast_f64 ::
  "RectLike_f64 \<Rightarrow> RectLike_f64 \<Rightarrow> MatrixArray_f64 \<Rightarrow> RectLike_f64" where
  "applyTransform_fast_f64 target source m =
     (let sx = md0 m; sy = md3 m; tx = md4 m; ty = md5 m
      in target\<lparr>rd_x := fadd (fmul (rd_x source) sx) tx,
                rd_y := fadd (fmul (rd_y source) sy) ty,
                rd_width := fmul (rd_width source) sx,
                rd_height := fmul (rd_height source) sy\<rparr>)"

definition applyTransform_general_f64 ::
  "RectLike_f64 \<Rightarrow> RectLike_f64 \<Rightarrow> MatrixArray_f64 \<Rightarrow> RectLike_f64" where
  "applyTransform_general_f64 target source m =
     (case corners_f64 source m of
        (lt, rt, rb, lb) \<Rightarrow>
          (let target1 = target\<lparr>rd_x := fmin (fmin (fmin (ptd_x lt) (ptd_x rb)) (ptd_x lb)) (ptd_x rt)\<rparr>;
               target2 = target1\<lparr>rd_y := fmin (fmin (fmin (ptd_y lt) (ptd_y rb)) (ptd_y lb)) (ptd_y rt)\<rparr>;
               maxX = fmax (fmax (fmax (ptd_x lt) (ptd_x rb)) (ptd_x lb)) (ptd_x rt);
               maxY = fmax (fmax (fmax (ptd_y lt) (ptd_y rb)) (ptd_y lb)) (ptd_y rt);
               target3 = target2\<lparr>rd_width := fsub maxX (rd_x target2)\<rparr>
           in target3\<lparr>rd_height := fsub maxY (rd_y target3)\<rparr>))"

text \<open>
  The literal \<open>1e-5\<close> is the double \<open>5902958103587057 * 2 ^ -69\<close>.
\<close>

definition eps_f64 :: f64 where
  "eps_f64 = Fin 5902958103587057 (- 69)"

definition copy_f64 :: "RectLike_f64 \<Rightarrow> RectLike_f64 \<Rightarrow> RectLike_f64" where
  "copy_f64 this other =
     this\<lparr>rd_x := rd_x other, rd_y := rd_y other,
          rd_width := rd_width other, rd_height := rd_height other\<rparr>"

definition applyTransform_static_f64 ::
  "RectLike_f64 \<Rightarrow> RectLike_f64 \<Rightarrow> MatrixArray_f64 option \<Rightarrow> RectLike_f64" where
  "applyTransform_static_f64 target source mo =
     (case mo of
        None \<Rightarrow> copy_f64 target source
      | Some m \<Rightarrow>
          if flt (md1 m) eps_f64 \<and> flt (md2 m) eps_f64
          then applyTransform_fast_f64 target source m
          else applyTransform_general_f64 target source m)"

section \<open>Helper lemmas\<close>

text \<open>Which operations keep the invariant \<open>rect_inv\<close>.\<close>

lemma new_BoundingRect_inv: "rect_inv (new_BoundingRect x y w h)"
  by (simp add: rect_inv_def new_BoundingRect_def)

lemma create_inv: "rect_inv (create r)"
  by (simp add: create_def new_BoundingRect_inv)

lemma union_rect_inv: "rect_inv a \<Longrightarrow> rect_inv (union_rect a b)"
  by (auto simp add: rect_inv_def union_rect_def Let_def)

lemma copy_rect_inv: "rect_inv b \<Longrightarrow> rect_inv (copy_rect a b)"
  by (simp add: rect_inv_def copy_rect_def)

lemma applyTransform_general_inv: "rect_inv (applyTransform_general t s m)"
  by (auto simp add: rect_inv_def applyTransform_general_def Let_def)

lemma applyTransform_fast_inv:
  "rect_inv s \<Longrightarrow> 0 \<le> m0 m \<Longrightarrow> 0 \<le> m3 m \<Longrightarrow> rect_inv (applyTransform_fast t s m)"
  by (simp add: rect_inv_def applyTransform_fast_def Let_def)

text \<open>
  With non-negative scale factors the fast path computes what the four corners give.
\<close>

lemma fast_eq_general_nonneg_scale:
  assumes "rect_inv s" "0 \<le> sx" "0 \<le> sy"
  shows "applyTransform_fast t s \<lparr>m0 = sx, m1 = 0, m2 = 0, m3 = sy, m4 = tx, m5 = ty\<rparr>
       = applyTransform_general t s \<lparr>m0 = sx, m1 = 0, m2 = 0, m3 = sy, m4 = tx, m5 = ty\<rparr>"
proof -
  have w: "0 \<le> sx * rect_width s" and h: "0 \<le> sy * rect_height s"
    using assms by (simp_all add: rect_inv_def)
  show ?thesis
    using w h
    by (simp add: applyTransform_fast_def applyTransform_general_def Point_transform_def Let_def
        min_def max_def algebra_simps)
qed

text \<open>
  The modelled matrix helpers post-compose: the new matrix moves a point as the old one
  does, and translates or scales the image afterwards.
\<close>

lemma Point_transform_translate:
  "Point_transform p (matrix_translate m v) =
     (let q = Point_transform p m in q\<lparr>pt_x := pt_x q + fst v, pt_y := pt_y q + snd v\<rparr>)"
  by (simp add: Point_transform_def matrix_translate_def Let_def)

lemma Point_transform_scale:
  "Point_transform p (matrix_scale m v) =
     (let q = Point_transform p m in q\<lparr>pt_x := pt_x q * fst v, pt_y := pt_y q * snd v\<rparr>)"
  by (simp add: Point_transform_def matrix_scale_def Let_def algebra_simps)

lemma Point_transform_create: "Point_transform p matrix_create = p"
  by (simp add: Point_transform_def matrix_create_def)

text \<open>The matrix that \<open>calculateTransform\<close> returns, and the path it takes.\<close>

lemma calculateTransform_matrix:
  "calculateTransform a b =
     \<lparr>m0 = rect_width b / rect_width a, m1 = 0, m2 = 0, m3 = rect_height b / rect_height a,
      m4 = - rect_x a * (rect_width b / rect_width a) + rect_x b,
      m5 = - rect_y a * (rect_height b / rect_height a) + rect_y b\<rparr>"
  by (simp add: calculateTransform_def matrix_create_def matrix_translate_def matrix_scale_def)

lemma calculateTransform_apply:
  assumes "rect_width a \<noteq> 0" "rect_height a \<noteq> 0"
  shows "applyTransform_static t a (Some (calculateTransform a b)) =
           t\<lparr>rect_x := rect_x b, rect_y := rect_y b,
             rect_width := rect_width b, rect_height := rect_height b\<rparr>"
  using assms
  by (simp add: calculateTransform_matrix applyTransform_static_def applyTransform_fast_def)

text \<open>
  For overlapping rectangles the vector written to \<open>mtv\<close> always lies on the x axis: the
  else-branch of the y axis compares \<open>dx\<close> with the \<open>dMin\<close> that the x axis has just set
  to \<open>dx\<close>.
\<close>

lemma intersect_overlap_mtv_on_x_axis:
  assumes "intersect sc a (Some (Instance b)) (Some p) = (True, Some q, sc')"
  shows "pt_y q = 0
       \<and> \<bar>pt_x q\<bar> = min \<bar>rect_x a + rect_width a - rect_x b\<bar> \<bar>rect_x b + rect_width b - rect_x a\<bar>"
  using assms
  by (auto simp add: intersect_def Let_def Point_set_def Point_copy_def split: if_splits)

text \<open>Signs in double arithmetic.\<close>

lemma flt_zero: "flt (Fin m e) (Fin 0 0) \<longleftrightarrow> m < 0"
  by (simp add: Let_def mult_less_0_iff)

lemma fge_zero_Fin: "fge (Fin m e) f64_zero \<longleftrightarrow> 0 \<le> m"
  by (simp add: fge_def fle_def f64_zero_def flt_zero not_less del: flt.simps)

lemma fge_zero_PInf: "fge PInf f64_zero"
  by (simp add: fge_def fle_def f64_zero_def)

lemma fge_zero_fneg: "flt w f64_zero \<Longrightarrow> fge (fneg w) f64_zero"
  by (cases w) (simp_all add: fge_def fle_def f64_zero_def flt_zero del: flt.simps(3))

lemma fge_zero_not_flt: "w \<noteq> NaN \<Longrightarrow> \<not> flt w f64_zero \<Longrightarrow> fge w f64_zero"
  by (cases w) (simp_all add: fge_def fle_def f64_zero_def flt_zero del: flt.simps(3))

text \<open>The constructor in double arithmetic.\<close>

lemma new_BoundingRect_f64_fields:
  "new_BoundingRect_f64 x y w h =
     \<lparr>rd_x = (if flt w f64_zero then fadd x w else x),
      rd_y = (if flt h f64_zero then fadd y h else y),
      rd_width = (if flt w f64_zero then fneg w else w),
      rd_height = (if flt h f64_zero then fneg h else h)\<rparr>"
  by (simp add: new_BoundingRect_f64_def)

lemma new_BoundingRect_f64_nonneg:
  assumes "w \<noteq> NaN" "h \<noteq> NaN"
  shows "fge (rd_width (new_BoundingRect_f64 x y w h)) f64_zero"
    and "fge (rd_height (new_BoundingRect_f64 x y w h)) f64_zero"
  using assms by (simp_all add: new_BoundingRect_f64_fields fge_zero_fneg fge_zero_not_flt)

text \<open>
  On finite doubles \<open>flt\<close> is the order of the exact values, so \<open>fmin\<close> and \<open>fmax\<close> are
  their minimum and maximum.
\<close>

lemma align_valof:
  assumes "e \<le> ea"
  shows "real_of_int (m * 2 ^ nat (ea - e)) * 2 powi e = of_int m * 2 powi ea"
proof -
  have "(2::real) powi ea = 2 powi (ea - e) * 2 powi e"
    by (simp flip: power_int_add)
  moreover have "(2::real) powi (ea - e) = 2 ^ nat (ea - e)"
    using assms by (simp add: power_int_def)
  ultimately show ?thesis by simp
qed

lemma flt_Fin_valof:
  "flt (Fin ma ea) (Fin mb eb) \<longleftrightarrow> valof (Fin ma ea) < valof (Fin mb eb)"
proof -
  define e where "e = min ea eb"
  have le: "e \<le> ea" "e \<le> eb" by (simp_all add: e_def)
  have pos: "(0::real) < 2 powi e" by simp
  have "flt (Fin ma ea) (Fin mb eb) \<longleftrightarrow> ma * 2 ^ nat (ea - e) < mb * 2 ^ nat (eb - e)"
    by (simp add: e_def Let_def)
  also have "\<dots> \<longleftrightarrow> real_of_int (ma * 2 ^ nat (ea - e)) < real_of_int (mb * 2 ^ nat (eb - e))"
    by (simp only: of_int_less_iff)
  also have "\<dots> \<longleftrightarrow> real_of_int (ma * 2 ^ nat (ea - e)) * 2 powi e
                      < real_of_int (mb * 2 ^ nat (eb - e)) * 2 powi e"
    using pos by (simp only: mult_less_cancel_right_pos)
  also have "\<dots> \<longleftrightarrow> valof (Fin ma ea) < valof (Fin mb eb)"
    by (simp only: align_valof [OF le(1)] align_valof [OF le(2)] valof.simps)
  finally show ?thesis .
qed

lemma flt_valof: "is_Fin a \<Longrightarrow> is_Fin b \<Longrightarrow> flt a b \<longleftrightarrow> valof a < valof b"
  by (cases a; cases b) (simp_all only: is_Fin.simps flt_Fin_valof)

lemma fmin_Fin:
  assumes "is_Fin a" "is_Fin b"
  shows "is_Fin (fmin a b)" and "valof (fmin a b) = min (valof a) (valof b)"
proof -
  have nn: "a \<noteq> NaN" "b \<noteq> NaN" using assms by auto
  show "is_Fin (fmin a b)" using assms nn by (simp add: fmin_def)
  show "valof (fmin a b) = min (valof a) (valof b)"
    using nn by (simp add: fmin_def flt_valof [OF assms(2) assms(1)] min_def)
qed

lemma fmax_Fin:
  assumes "is_Fin a" "is_Fin b"
  shows "is_Fin (fmax a b)" and "valof (fmax a b) = max (valof a) (valof b)"
proof -
  have nn: "a \<noteq> NaN" "b \<noteq> NaN" using assms by auto
  show "is_Fin (fmax a b)" using assms nn by (simp add: fmax_def)
  show "valof (fmax a b) = max (valof a) (valof b)"
    using nn by (simp add: fmax_def flt_valof [OF assms] max_def)
qed

text \<open>
  Rounding keeps the sign, so the difference between the maximum and the minimum of
  four finite doubles is never negative.
\<close>

lemma rne_nonneg: "0 \<le> a \<Longrightarrow> 0 \<le> rne a k"
  by (simp add: rne_def Let_def pos_imp_zdiv_nonneg_iff)

lemma round_f64_nonneg: "0 \<le> m \<Longrightarrow> fge (round_f64 m e) f64_zero"
  using rne_nonneg [of "\<bar>m\<bar>"]
  by (simp add: round_f64_def Let_def fge_zero_Fin fge_zero_PInf)

lemma fsub_nonneg:
  assumes "is_Fin a" "is_Fin b" "valof b \<le> valof a"
  shows "fge (fsub a b) f64_zero"
proof -
  obtain ma ea where a: "a = Fin ma ea" using assms(1) by (cases a) simp_all
  obtain mb eb where b: "b = Fin mb eb" using assms(2) by (cases b) simp_all
  have "\<not> flt a b"
    using assms by (simp add: flt_valof)
  then have "0 \<le> ma * 2 ^ nat (ea - min ea eb) + (- mb) * 2 ^ nat (eb - min ea eb)"
    by (simp add: a b Let_def)
  then show ?thesis
    by (simp add: fsub_def a b Let_def round_f64_nonneg del: mult_minus_left)
qed

lemma span4_nonneg:
  assumes "is_Fin a" "is_Fin b" "is_Fin c" "is_Fin d"
  shows "fge (fsub (fmax (fmax (fmax a b) c) d) (fmin (fmin (fmin a b) c) d)) f64_zero"
proof -
  have mn: "is_Fin (fmin (fmin (fmin a b) c) d)"
    and mx: "is_Fin (fmax (fmax (fmax a b) c) d)"
    using assms by (simp_all add: fmin_Fin fmax_Fin)
  have "valof (fmin (fmin (fmin a b) c) d) = min (min (min (valof a) (valof b)) (valof c)) (valof d)"
    and "valof (fmax (fmax (fmax a b) c) d) = max (max (max (valof a) (valof b)) (valof c)) (valof d)"
    using assms by (simp_all add: fmin_Fin fmax_Fin)
  then have "valof (fmin (fmin (fmin a b) c) d) \<le> valof (fmax (fmax (fmax a b) c) d)"
    by (simp add: min_def max_def)
  then show ?thesis
    by (rule fsub_nonneg [OF mx mn])
qed

lemma applyTransform_general_f64_nonneg:
  assumes "finite_corners source m"
  shows "fge (rd_width (applyTransform_general_f64 target source m)) f64_zero"
    and "fge (rd_height (applyTransform_general_f64 target source m)) f64_zero"
proof -
  obtain lt rt rb lb where c: "corners_f64 source m = (lt, rt, rb, lb)"
    by (cases "corners_f64 source m") auto
  have fin: "is_Fin (ptd_x lt)" "is_Fin (ptd_x rb)" "is_Fin (ptd_x lb)" "is_Fin (ptd_x rt)"
    "is_Fin (ptd_y lt)" "is_Fin (ptd_y rb)" "is_Fin (ptd_y lb)" "is_Fin (ptd_y rt)"
    using assms by (simp_all add: finite_corners_def c finite_point_def)
  show "fge (rd_width (applyTransform_general_f64 target source m)) f64_zero"
    by (simp add: applyTransform_general_f64_def c Let_def span4_nonneg fin)
  show "fge (rd_height (applyTransform_general_f64 target source m)) f64_zero"
    by (simp add: applyTransform_general_f64_def c Let_def span4_nonneg fin)
qed

text \<open>The path condition over the reals leads to the four-corner path.\<close>

lemma applyTransform_static_general_exact:
  assumes "\<not> (m1 m < 1 / 100000 \<and> m2 m < 1 / 100000)"
  shows "applyTransform_static target source (Some m) = applyTransform_general target source m"
    and "rect_inv (applyTransform_static target source (Some m))"
  using assms by (auto simp add: applyTransform_static_def applyTransform_general_inv)

section \<open>The claims\<close>

text \<open>
  C1. Claimed: after construction and after every mutating operation (\<open>union\<close>,
  \<open>applyTransform\<close> with any matrix, \<open>copy\<close> from a rectangle that respects the
  invariant) a rectangle has \<open>width >= 0\<close> and \<open>height >= 0\<close>.
  The constructor, \<open>union\<close>, \<open>copy\<close> and the four-corner path keep the invariant (the
  helper lemmas above), but the fast path of \<open>applyTransform\<close> multiplies the width by
  \<open>m[0]\<close> and stores the product as it is: the rectangle built by
  \<open>new BoundingRect(0, 0, 10, 10)\<close>, transformed by the reflection \<open>[-1, 0, 0, 1, 0, 0]\<close>,
  ends with width \<open>-10\<close>.
\<close>

theorem applyTransform_fast_path_negative_width:
  "rect_inv (new_BoundingRect 0 0 10 10)
   \<and> applyTransform (new_BoundingRect 0 0 10 10)
        (Some \<lparr>m0 = - 1, m1 = 0, m2 = 0, m3 = 1, m4 = 0, m5 = 0\<rparr>)
      = \<lparr>rect_x = 0, rect_y = 0, rect_width = - 10, rect_height = 10\<rparr>
   \<and> \<not> rect_inv (applyTransform (new_BoundingRect 0 0 10 10)
        (Some \<lparr>m0 = - 1, m1 = 0, m2 = 0, m3 = 1, m4 = 0, m5 = 0\<rparr>))"
  by (simp add: rect_inv_def new_BoundingRect_def applyTransform_def applyTransform_static_def
      applyTransform_fast_def)

text \<open>
  C2. Claimed: for every rectangle and every pure scale and translate matrix
  \<open>[sx, 0, 0, sy, tx, ty]\<close>, with any real \<open>sx\<close> and \<open>sy\<close>, the fast path and the
  four-corner path of the static \<open>applyTransform\<close> give the same target.
  They agree when \<open>sx\<close> and \<open>sy\<close> are non-negative (lemma
  \<open>fast_eq_general_nonneg_scale\<close>); for the rectangle \<open>(0, 0, 10, 10)\<close> and
  \<open>[-1, 0, 0, 1, 0, 0]\<close> the fast path gives \<open>(0, 0, -10, 10)\<close> and the four corners
  give \<open>(-10, 0, 10, 10)\<close>.
\<close>

theorem fast_path_general_path_differ:
  "applyTransform_fast (new_BoundingRect 0 0 10 10) (new_BoundingRect 0 0 10 10)
       \<lparr>m0 = - 1, m1 = 0, m2 = 0, m3 = 1, m4 = 0, m5 = 0\<rparr>
     = \<lparr>rect_x = 0, rect_y = 0, rect_width = - 10, rect_height = 10\<rparr>
   \<and> applyTransform_general (new_BoundingRect 0 0 10 10) (new_BoundingRect 0 0 10 10)
       \<lparr>m0 = - 1, m1 = 0, m2 = 0, m3 = 1, m4 = 0, m5 = 0\<rparr>
     = \<lparr>rect_x = - 10, rect_y = 0, rect_width = 10, rect_height = 10\<rparr>
   \<and> applyTransform_static (new_BoundingRect 0 0 10 10) (new_BoundingRect 0 0 10 10)
       (Some \<lparr>m0 = - 1, m1 = 0, m2 = 0, m3 = 1, m4 = 0, m5 = 0\<rparr>)
     \<noteq> applyTransform_general (new_BoundingRect 0 0 10 10) (new_BoundingRect 0 0 10 10)
       \<lparr>m0 = - 1, m1 = 0, m2 = 0, m3 = 1, m4 = 0, m5 = 0\<rparr>"
  by (simp add: new_BoundingRect_def applyTransform_static_def applyTransform_fast_def
      applyTransform_general_def Point_transform_def)

text \<open>
  C3. Claimed: for overlapping rectangles \<open>intersect\<close> writes into \<open>mtv\<close> the smallest
  axis-aligned displacement that separates them, on the axis of the smaller penetration;
  when the penetration on the y axis is strictly smaller, the vector lies on the y axis.
  For \<open>a = (0, 0, 10, 10)\<close> and \<open>b = (5, 8, 10, 10)\<close> the penetration is 5 on the x axis
  and 2 on the y axis, and the call returns \<open>true\<close> with \<open>mtv = (5, 0)\<close>.
\<close>

theorem intersect_mtv_ignores_smaller_y_penetration:
  "intersect \<lparr>minTv = \<lparr>pt_x = 0, pt_y = 0\<rparr>, maxTv = \<lparr>pt_x = 0, pt_y = 0\<rparr>\<rparr>
       (new_BoundingRect 0 0 10 10) (Some (Instance (new_BoundingRect 5 8 10 10)))
       (Some \<lparr>pt_x = 0, pt_y = 0\<rparr>)
     = (True, Some \<lparr>pt_x = 5, pt_y = 0\<rparr>,
        \<lparr>minTv = \<lparr>pt_x = 5, pt_y = 0\<rparr>, maxTv = \<lparr>pt_x = 0, pt_y = 0\<rparr>\<rparr>)"
  by (simp add: intersect_def new_BoundingRect_def Point_set_def Point_copy_def)

text \<open>
  C4, as claimed: the stored rectangle denotes the same point set as the unnormalized
  box. In double arithmetic \<open>new BoundingRect(0.1, 0, -0.5, 1)\<close>, where \<open>0.1\<close> is the double
  \<open>3602879701896397 * 2 ^ -55\<close>, stores \<open>x = -0.4\<close>, the rounded \<open>0.1 - 0.5\<close>, and
  \<open>width = 0.5\<close>. The corner \<open>(0.1, 0)\<close> of the box as given is then outside the stored
  rectangle, for \<open>contain\<close> and also when the stored fields are added exactly.
\<close>

theorem new_BoundingRect_f64_loses_corner:
  "valid_f64 (Fin 3602879701896397 (- 55)) \<and> valid_f64 (Fin (- 1) (- 1))
   \<and> new_BoundingRect_f64 (Fin 3602879701896397 (- 55)) (Fin 0 0) (Fin (- 1) (- 1)) (Fin 1 0)
       = \<lparr>rd_x = Fin (- 7205759403792794) (- 54), rd_y = Fin 0 0,
          rd_width = Fin 1 (- 1), rd_height = Fin 1 0\<rparr>
   \<and> in_box (valof (Fin 3602879701896397 (- 55))) (valof (Fin 0 0))
        (valof (Fin (- 1) (- 1))) (valof (Fin 1 0))
        (valof (Fin 3602879701896397 (- 55))) (valof (Fin 0 0))
   \<and> \<not> contain_f64
         (new_BoundingRect_f64 (Fin 3602879701896397 (- 55)) (Fin 0 0) (Fin (- 1) (- 1)) (Fin 1 0))
         (Fin 3602879701896397 (- 55)) (Fin 0 0)
   \<and> \<not> contain
         (rect_of_f64
            (new_BoundingRect_f64 (Fin 3602879701896397 (- 55)) (Fin 0 0) (Fin (- 1) (- 1)) (Fin 1 0)))
         (valof (Fin 3602879701896397 (- 55))) (valof (Fin 0 0))"
proof -
  have valid: "valid_f64 (Fin 3602879701896397 (- 55))" "valid_f64 (Fin (- 1) (- 1))"
    by code_simp+
  have stored:
    "new_BoundingRect_f64 (Fin 3602879701896397 (- 55)) (Fin 0 0) (Fin (- 1) (- 1)) (Fin 1 0)
       = \<lparr>rd_x = Fin (- 7205759403792794) (- 54), rd_y = Fin 0 0,
          rd_width = Fin 1 (- 1), rd_height = Fin 1 0\<rparr>"
    by code_simp
  have box: "in_box (valof (Fin 3602879701896397 (- 55))) (valof (Fin 0 0))
        (valof (Fin (- 1) (- 1))) (valof (Fin 1 0))
        (valof (Fin 3602879701896397 (- 55))) (valof (Fin 0 0))"
    by (simp add: in_box_def)
  have out: "\<not> contain_f64
         (new_BoundingRect_f64 (Fin 3602879701896397 (- 55)) (Fin 0 0) (Fin (- 1) (- 1)) (Fin 1 0))
         (Fin 3602879701896397 (- 55)) (Fin 0 0)"
    by code_simp
  have out_exact: "\<not> contain
         (rect_of_f64
            (new_BoundingRect_f64 (Fin 3602879701896397 (- 55)) (Fin 0 0) (Fin (- 1) (- 1)) (Fin 1 0)))
         (valof (Fin 3602879701896397 (- 55))) (valof (Fin 0 0))"
    by (simp add: stored rect_of_f64_def contain_def power_int_minus)
  show ?thesis
    using valid stored box out out_exact by blast
qed

text \<open>
  C4, as amended. For all \<open>x\<close>, \<open>y\<close>, \<open>width\<close>, \<open>height\<close>: when \<open>width < 0\<close> the constructor
  stores \<open>x + width\<close> and \<open>- width\<close>, and likewise for \<open>height\<close> and \<open>y\<close>; the stored extents
  are non-negative; \<open>new BoundingRect(10, 10, -5, -5)\<close> has the fields
  \<open>{x: 5, y: 5, width: 5, height: 5}\<close>. This holds over the reals, where \<open>create\<close> does the
  same from a plain object, and in double arithmetic, where the sum is the rounded one
  and the extents are non-negative unless \<open>width\<close> or \<open>height\<close> is \<open>NaN\<close>. The stored
  rectangle contains exactly the points of the box as given when the sums are exact,
  that is over the reals.
\<close>

theorem new_BoundingRect_normalizes:
  "new_BoundingRect x y w h =
     \<lparr>rect_x = (if w < 0 then x + w else x), rect_y = (if h < 0 then y + h else y),
      rect_width = (if w < 0 then - w else w), rect_height = (if h < 0 then - h else h)\<rparr>
   \<and> rect_width (new_BoundingRect x y w h) \<ge> 0
   \<and> rect_height (new_BoundingRect x y w h) \<ge> 0
   \<and> contain (new_BoundingRect x y w h) px py = in_box x y w h px py
   \<and> create \<lparr>rect_x = x, rect_y = y, rect_width = w, rect_height = h\<rparr> = new_BoundingRect x y w h
   \<and> new_BoundingRect 10 10 (- 5) (- 5)
       = \<lparr>rect_x = 5, rect_y = 5, rect_width = 5, rect_height = 5\<rparr>
   \<and> new_BoundingRect_f64 dx dy dw dh =
       \<lparr>rd_x = (if flt dw f64_zero then fadd dx dw else dx),
        rd_y = (if flt dh f64_zero then fadd dy dh else dy),
        rd_width = (if flt dw f64_zero then fneg dw else dw),
        rd_height = (if flt dh f64_zero then fneg dh else dh)\<rparr>
   \<and> (dw \<noteq> NaN \<and> dh \<noteq> NaN \<longrightarrow>
        fge (rd_width (new_BoundingRect_f64 dx dy dw dh)) f64_zero
        \<and> fge (rd_height (new_BoundingRect_f64 dx dy dw dh)) f64_zero)
   \<and> new_BoundingRect_f64 (Fin 10 0) (Fin 10 0) (Fin (- 5) 0) (Fin (- 5) 0)
       = \<lparr>rd_x = Fin 5 0, rd_y = Fin 5 0, rd_width = Fin 5 0, rd_height = Fin 5 0\<rparr>"
proof -
  have fields: "new_BoundingRect x y w h =
     \<lparr>rect_x = (if w < 0 then x + w else x), rect_y = (if h < 0 then y + h else y),
      rect_width = (if w < 0 then - w else w), rect_height = (if h < 0 then - h else h)\<rparr>"
    by (simp add: new_BoundingRect_def)
  have sign: "rect_width (new_BoundingRect x y w h) \<ge> 0"
    "rect_height (new_BoundingRect x y w h) \<ge> 0"
    by (simp_all add: fields)
  have region: "contain (new_BoundingRect x y w h) px py = in_box x y w h px py"
    by (auto simp add: fields contain_def in_box_def)
  have cr: "create \<lparr>rect_x = x, rect_y = y, rect_width = w, rect_height = h\<rparr>
      = new_BoundingRect x y w h"
    by (simp add: create_def)
  have example: "new_BoundingRect 10 10 (- 5) (- 5)
       = \<lparr>rect_x = 5, rect_y = 5, rect_width = 5, rect_height = 5\<rparr>"
    by (simp add: new_BoundingRect_def)
  have example_f64: "new_BoundingRect_f64 (Fin 10 0) (Fin 10 0) (Fin (- 5) 0) (Fin (- 5) 0)
       = \<lparr>rd_x = Fin 5 0, rd_y = Fin 5 0, rd_width = Fin 5 0, rd_height = Fin 5 0\<rparr>"
    by code_simp
  show ?thesis
    using fields sign region cr example example_f64
      new_BoundingRect_f64_fields [of dx dy dw dh]
      new_BoundingRect_f64_nonneg [of dw dh dx dy]
    by blast
qed

theorem new_BoundingRect_normalizes_witness:
  "new_BoundingRect 3 4 (- 2) 6 = \<lparr>rect_x = 1, rect_y = 4, rect_width = 2, rect_height = 6\<rparr>
   \<and> contain (new_BoundingRect 3 4 (- 2) 6) 2 5
   \<and> in_box 3 4 (- 2) 6 2 5
   \<and> Fin (- 2) 0 \<noteq> NaN \<and> Fin 6 0 \<noteq> NaN
   \<and> fge (rd_width (new_BoundingRect_f64 (Fin 3 0) (Fin 4 0) (Fin (- 2) 0) (Fin 6 0))) f64_zero
   \<and> fge (rd_height (new_BoundingRect_f64 (Fin 3 0) (Fin 4 0) (Fin (- 2) 0) (Fin 6 0))) f64_zero"
proof -
  note inst = new_BoundingRect_normalizes [where x = 3 and y = 4 and w = "- 2" and h = 6
      and px = 2 and py = 5 and dx = "Fin 3 0" and dy = "Fin 4 0" and dw = "Fin (- 2) 0"
      and dh = "Fin 6 0"]
  have fields: "new_BoundingRect 3 4 (- 2) 6
      = \<lparr>rect_x = 1, rect_y = 4, rect_width = 2, rect_height = 6\<rparr>"
    using inst by simp
  have box: "in_box 3 4 (- 2) 6 2 5"
    by (simp add: in_box_def)
  have nn: "Fin (- 2) 0 \<noteq> NaN" "Fin 6 0 \<noteq> NaN"
    by simp_all
  show ?thesis
    using inst fields box nn by blast
qed

text \<open>
  C5. For all rectangles \<open>a\<close> and \<open>b\<close> with strictly positive width and height, the
  static \<open>applyTransform\<close> with source \<open>a\<close> and the matrix \<open>a.calculateTransform(b)\<close>
  leaves a target whose \<open>x\<close>, \<open>y\<close>, \<open>width\<close> and \<open>height\<close> are those of \<open>b\<close>, in exact
  arithmetic.
\<close>

theorem calculateTransform_roundtrip:
  assumes "0 < rect_width a" "0 < rect_height a" "0 < rect_width b" "0 < rect_height b"
  shows "rect_x (applyTransform_static target a (Some (calculateTransform a b))) = rect_x b
       \<and> rect_y (applyTransform_static target a (Some (calculateTransform a b))) = rect_y b
       \<and> rect_width (applyTransform_static target a (Some (calculateTransform a b))) = rect_width b
       \<and> rect_height (applyTransform_static target a (Some (calculateTransform a b))) = rect_height b"
proof -
  have "rect_width a \<noteq> 0" and "rect_height a \<noteq> 0"
    using assms by simp_all
  then show ?thesis
    by (simp add: calculateTransform_apply)
qed

theorem calculateTransform_roundtrip_witness:
  "applyTransform_static (new_BoundingRect 0 0 0 0) (new_BoundingRect 1 2 3 4)
      (Some (calculateTransform (new_BoundingRect 1 2 3 4) (new_BoundingRect 5 6 7 8)))
     = \<lparr>rect_x = 5, rect_y = 6, rect_width = 7, rect_height = 8\<rparr>"
proof -
  have a: "0 < rect_width (new_BoundingRect 1 2 3 4)" "0 < rect_height (new_BoundingRect 1 2 3 4)"
    by (simp_all add: new_BoundingRect_def)
  have b: "0 < rect_width (new_BoundingRect 5 6 7 8)" "0 < rect_height (new_BoundingRect 5 6 7 8)"
    by (simp_all add: new_BoundingRect_def)
  have fields: "new_BoundingRect 5 6 7 8 = \<lparr>rect_x = 5, rect_y = 6, rect_width = 7, rect_height = 8\<rparr>"
    by (simp add: new_BoundingRect_def)
  show ?thesis
    using calculateTransform_roundtrip [OF a b, of "new_BoundingRect 0 0 0 0"]
    by (simp add: fields)
qed

text \<open>
  C6, as claimed: after \<open>a.union(b)\<close> the right edge \<open>a.x + a.width\<close> is the maximum of
  the two right edges. In double arithmetic, for \<open>a = (0.4, 0, 0.1, 1)\<close> and
  \<open>b = (0.5, 0, 1.3, 1)\<close>, the union stores \<open>x = 0.4\<close> and \<open>width = 1.4\<close>, the rounded
  \<open>1.8 - 0.4\<close>; \<open>a.x + a.width\<close> is \<open>1.7999999999999998\<close> and the maximum of the right
  edges is \<open>1.8\<close>. The two differ as doubles and as exact sums, and the point \<open>(1.8, 0)\<close>
  of \<open>b\<close> is outside the union.
\<close>

theorem union_f64_right_edge_differs:
  "valid_f64 (Fin 3602879701896397 (- 53)) \<and> valid_f64 (Fin 3602879701896397 (- 55))
   \<and> valid_f64 (Fin 5854679515581645 (- 52))
   \<and> union_f64
      \<lparr>rd_x = Fin 3602879701896397 (- 53), rd_y = Fin 0 0,
       rd_width = Fin 3602879701896397 (- 55), rd_height = Fin 1 0\<rparr>
      \<lparr>rd_x = Fin 1 (- 1), rd_y = Fin 0 0,
       rd_width = Fin 5854679515581645 (- 52), rd_height = Fin 1 0\<rparr>
     = \<lparr>rd_x = Fin 3602879701896397 (- 53), rd_y = Fin 0 0,
        rd_width = Fin 6305039478318694 (- 52), rd_height = Fin 1 0\<rparr>
   \<and> fadd (Fin 3602879701896397 (- 53)) (Fin 6305039478318694 (- 52))
       = Fin 8106479329266892 (- 52)
   \<and> fmax (fadd (Fin 3602879701896397 (- 53)) (Fin 3602879701896397 (- 55)))
           (fadd (Fin 1 (- 1)) (Fin 5854679515581645 (- 52)))
       = Fin 8106479329266893 (- 52)
   \<and> \<not> feq (Fin 8106479329266892 (- 52)) (Fin 8106479329266893 (- 52))
   \<and> valof (Fin 3602879701896397 (- 53)) + valof (Fin 6305039478318694 (- 52))
       \<noteq> valof (Fin 8106479329266893 (- 52))
   \<and> contain_f64
        \<lparr>rd_x = Fin 1 (- 1), rd_y = Fin 0 0,
         rd_width = Fin 5854679515581645 (- 52), rd_height = Fin 1 0\<rparr>
        (Fin 8106479329266893 (- 52)) (Fin 0 0)
   \<and> \<not> contain_f64
        \<lparr>rd_x = Fin 3602879701896397 (- 53), rd_y = Fin 0 0,
         rd_width = Fin 6305039478318694 (- 52), rd_height = Fin 1 0\<rparr>
        (Fin 8106479329266893 (- 52)) (Fin 0 0)"
proof -
  have valid: "valid_f64 (Fin 3602879701896397 (- 53))" "valid_f64 (Fin 3602879701896397 (- 55))"
    "valid_f64 (Fin 5854679515581645 (- 52))"
    by code_simp+
  have exact: "valof (Fin 3602879701896397 (- 53)) + valof (Fin 6305039478318694 (- 52))
       \<noteq> valof (Fin 8106479329266893 (- 52))"
    by (simp add: power_int_minus)
  have rest: "union_f64
      \<lparr>rd_x = Fin 3602879701896397 (- 53), rd_y = Fin 0 0,
       rd_width = Fin 3602879701896397 (- 55), rd_height = Fin 1 0\<rparr>
      \<lparr>rd_x = Fin 1 (- 1), rd_y = Fin 0 0,
       rd_width = Fin 5854679515581645 (- 52), rd_height = Fin 1 0\<rparr>
     = \<lparr>rd_x = Fin 3602879701896397 (- 53), rd_y = Fin 0 0,
        rd_width = Fin 6305039478318694 (- 52), rd_height = Fin 1 0\<rparr>"
    "fadd (Fin 3602879701896397 (- 53)) (Fin 6305039478318694 (- 52))
       = Fin 8106479329266892 (- 52)"
    "fmax (fadd (Fin 3602879701896397 (- 53)) (Fin 3602879701896397 (- 55)))
           (fadd (Fin 1 (- 1)) (Fin 5854679515581645 (- 52)))
       = Fin 8106479329266893 (- 52)"
    "\<not> feq (Fin 8106479329266892 (- 52)) (Fin 8106479329266893 (- 52))"
    "contain_f64
        \<lparr>rd_x = Fin 1 (- 1), rd_y = Fin 0 0,
         rd_width = Fin 5854679515581645 (- 52), rd_height = Fin 1 0\<rparr>
        (Fin 8106479329266893 (- 52)) (Fin 0 0)"
    "\<not> contain_f64
        \<lparr>rd_x = Fin 3602879701896397 (- 53), rd_y = Fin 0 0,
         rd_width = Fin 6305039478318694 (- 52), rd_height = Fin 1 0\<rparr>
        (Fin 8106479329266893 (- 52)) (Fin 0 0)"
    by code_simp+
  show ?thesis
    using valid exact rest by blast
qed

text \<open>
  C6, as amended. For every pair of rectangles, \<open>a.union(b)\<close> leaves \<open>a\<close> with \<open>x\<close> the
  minimum of the two \<open>x\<close>, \<open>y\<close> the minimum of the two \<open>y\<close>, \<open>width\<close> the maximum of the two
  right edges minus the new \<open>x\<close> and \<open>height\<close> the maximum of the two bottom edges minus
  the new \<open>y\<close>, all taken from the fields that \<open>a\<close> had before the call, each sum and
  difference being the rounded one in double arithmetic. When the arithmetic is exact,
  that is over the reals, \<open>x + width\<close> is the maximum of the two right edges and
  \<open>y + height\<close> the maximum of the two bottom edges.
\<close>

theorem union_rect_bounds:
  "rect_x (union_rect a b) = min (rect_x a) (rect_x b)
   \<and> rect_y (union_rect a b) = min (rect_y a) (rect_y b)
   \<and> rect_x (union_rect a b) + rect_width (union_rect a b)
       = max (rect_x a + rect_width a) (rect_x b + rect_width b)
   \<and> rect_y (union_rect a b) + rect_height (union_rect a b)
       = max (rect_y a + rect_height a) (rect_y b + rect_height b)
   \<and> rd_x (union_f64 da db) = fmin (rd_x db) (rd_x da)
   \<and> rd_y (union_f64 da db) = fmin (rd_y db) (rd_y da)
   \<and> rd_width (union_f64 da db)
       = fsub (fmax (fadd (rd_x db) (rd_width db)) (fadd (rd_x da) (rd_width da)))
              (fmin (rd_x db) (rd_x da))
   \<and> rd_height (union_f64 da db)
       = fsub (fmax (fadd (rd_y db) (rd_height db)) (fadd (rd_y da) (rd_height da)))
              (fmin (rd_y db) (rd_y da))"
proof -
  have exact: "rect_x (union_rect a b) = min (rect_x a) (rect_x b)"
    "rect_y (union_rect a b) = min (rect_y a) (rect_y b)"
    "rect_x (union_rect a b) + rect_width (union_rect a b)
       = max (rect_x a + rect_width a) (rect_x b + rect_width b)"
    "rect_y (union_rect a b) + rect_height (union_rect a b)
       = max (rect_y a + rect_height a) (rect_y b + rect_height b)"
    by (simp_all add: union_rect_def Let_def min.commute max.commute)
  have rounded: "rd_x (union_f64 da db) = fmin (rd_x db) (rd_x da)"
    "rd_y (union_f64 da db) = fmin (rd_y db) (rd_y da)"
    "rd_width (union_f64 da db)
       = fsub (fmax (fadd (rd_x db) (rd_width db)) (fadd (rd_x da) (rd_width da)))
              (fmin (rd_x db) (rd_x da))"
    "rd_height (union_f64 da db)
       = fsub (fmax (fadd (rd_y db) (rd_height db)) (fadd (rd_y da) (rd_height da)))
              (fmin (rd_y db) (rd_y da))"
    by (simp_all add: union_f64_def Let_def)
  show ?thesis
    using exact rounded by blast
qed

theorem union_rect_bounds_witness:
  "union_rect (new_BoundingRect 0 0 10 10) (new_BoundingRect 5 (- 3) 10 4)
     = \<lparr>rect_x = 0, rect_y = - 3, rect_width = 15, rect_height = 13\<rparr>
   \<and> rd_width (union_f64
        \<lparr>rd_x = Fin 3602879701896397 (- 53), rd_y = Fin 0 0,
         rd_width = Fin 3602879701896397 (- 55), rd_height = Fin 1 0\<rparr>
        \<lparr>rd_x = Fin 1 (- 1), rd_y = Fin 0 0,
         rd_width = Fin 5854679515581645 (- 52), rd_height = Fin 1 0\<rparr>)
      = fsub (fmax (fadd (Fin 1 (- 1)) (Fin 5854679515581645 (- 52)))
                   (fadd (Fin 3602879701896397 (- 53)) (Fin 3602879701896397 (- 55))))
             (fmin (Fin 1 (- 1)) (Fin 3602879701896397 (- 53)))"
  using union_rect_bounds [of "new_BoundingRect 0 0 10 10" "new_BoundingRect 5 (- 3) 10 4"
      "\<lparr>rd_x = Fin 3602879701896397 (- 53), rd_y = Fin 0 0,
        rd_width = Fin 3602879701896397 (- 55), rd_height = Fin 1 0\<rparr>"
      "\<lparr>rd_x = Fin 1 (- 1), rd_y = Fin 0 0,
        rd_width = Fin 5854679515581645 (- 52), rd_height = Fin 1 0\<rparr>"]
  by (simp add: new_BoundingRect_def union_rect_def)

text \<open>
  C7. For every rectangle \<open>a\<close> and a falsy argument \<open>b\<close>, with or without an \<open>mtv\<close>
  argument, \<open>a.intersect(b, mtv)\<close> returns \<open>false\<close>; nothing is computed, so the scratch
  points stay as they were.
\<close>

theorem intersect_falsy_returns_false:
  "fst (intersect sc a None mtv) = False \<and> snd (snd (intersect sc a None mtv)) = sc"
  by (simp add: intersect_def)

theorem intersect_falsy_returns_false_witness:
  "\<not> fst (intersect \<lparr>minTv = \<lparr>pt_x = 1, pt_y = 2\<rparr>, maxTv = \<lparr>pt_x = 3, pt_y = 4\<rparr>\<rparr>
       (new_BoundingRect 0 0 10 10) None (Some \<lparr>pt_x = 7, pt_y = 9\<rparr>))
   \<and> \<not> fst (intersect \<lparr>minTv = \<lparr>pt_x = 1, pt_y = 2\<rparr>, maxTv = \<lparr>pt_x = 3, pt_y = 4\<rparr>\<rparr>
       (new_BoundingRect 0 0 10 10) None None)"
  using intersect_falsy_returns_false [of "\<lparr>minTv = \<lparr>pt_x = 1, pt_y = 2\<rparr>, maxTv = \<lparr>pt_x = 3, pt_y = 4\<rparr>\<rparr>"
      "new_BoundingRect 0 0 10 10" "Some \<lparr>pt_x = 7, pt_y = 9\<rparr>"]
    intersect_falsy_returns_false [of "\<lparr>minTv = \<lparr>pt_x = 1, pt_y = 2\<rparr>, maxTv = \<lparr>pt_x = 3, pt_y = 4\<rparr>\<rparr>"
      "new_BoundingRect 0 0 10 10" None]
  by simp

text \<open>
  C8. For every rectangle \<open>r\<close> and all real \<open>x\<close>, \<open>y\<close>, \<open>r.contain(x, y)\<close> is true exactly
  when \<open>r.x <= x <= r.x + r.width\<close> and \<open>r.y <= y <= r.y + r.height\<close>, both ends included;
  for \<open>BoundingRect(0, 0, 10, 10)\<close> the points \<open>(0, 0)\<close>, \<open>(10, 10)\<close> and \<open>(5, 5)\<close> are
  contained and \<open>(10.0001, 5)\<close> is not.
\<close>

theorem contain_closed_rectangle:
  "(contain r x y \<longleftrightarrow>
      (rect_x r \<le> x \<and> x \<le> rect_x r + rect_width r)
      \<and> (rect_y r \<le> y \<and> y \<le> rect_y r + rect_height r))
   \<and> contain (new_BoundingRect 0 0 10 10) 0 0
   \<and> contain (new_BoundingRect 0 0 10 10) 10 10
   \<and> contain (new_BoundingRect 0 0 10 10) 5 5
   \<and> \<not> contain (new_BoundingRect 0 0 10 10) (100001 / 10000) 5"
proof -
  have iff: "contain r x y \<longleftrightarrow>
      (rect_x r \<le> x \<and> x \<le> rect_x r + rect_width r)
      \<and> (rect_y r \<le> y \<and> y \<le> rect_y r + rect_height r)"
    by (auto simp add: contain_def)
  have examples: "contain (new_BoundingRect 0 0 10 10) 0 0"
    "contain (new_BoundingRect 0 0 10 10) 10 10"
    "contain (new_BoundingRect 0 0 10 10) 5 5"
    "\<not> contain (new_BoundingRect 0 0 10 10) (100001 / 10000) 5"
    by (simp_all add: contain_def new_BoundingRect_def)
  show ?thesis
    using iff examples by blast
qed

theorem contain_closed_rectangle_witness:
  "contain (new_BoundingRect 2 3 4 5) 6 8 \<and> \<not> contain (new_BoundingRect 2 3 4 5) 6 (81 / 10)"
  using contain_closed_rectangle [of "new_BoundingRect 2 3 4 5" 6 8]
    contain_closed_rectangle [of "new_BoundingRect 2 3 4 5" 6 "81 / 10"]
  by (simp add: new_BoundingRect_def)

text \<open>
  C9. For every rectangle \<open>a\<close>, a falsy \<open>b\<close> and a supplied \<open>mtv\<close> point,
  \<open>a.intersect(b, mtv)\<close> leaves \<open>mtv\<close> as it was.
\<close>

theorem intersect_falsy_keeps_mtv:
  "fst (snd (intersect sc a None (Some p))) = Some p"
  by (simp add: intersect_def)

theorem intersect_falsy_keeps_mtv_witness:
  "fst (snd (intersect \<lparr>minTv = \<lparr>pt_x = 1, pt_y = 2\<rparr>, maxTv = \<lparr>pt_x = 3, pt_y = 4\<rparr>\<rparr>
       (new_BoundingRect 0 0 10 10) None (Some \<lparr>pt_x = 7, pt_y = 9\<rparr>)))
     = Some \<lparr>pt_x = 7, pt_y = 9\<rparr>"
  using intersect_falsy_keeps_mtv [of "\<lparr>minTv = \<lparr>pt_x = 1, pt_y = 2\<rparr>, maxTv = \<lparr>pt_x = 3, pt_y = 4\<rparr>\<rparr>"
      "new_BoundingRect 0 0 10 10" "\<lparr>pt_x = 7, pt_y = 9\<rparr>"]
  by simp

text \<open>
  C10, as claimed: on the four-corner path the target ends with \<open>width >= 0\<close> and
  \<open>height >= 0\<close> for every matrix with not (\<open>m[1] < 1e-5\<close> and \<open>m[2] < 1e-5\<close>). A \<open>NaN\<close>
  in \<open>m[1]\<close> makes \<open>m[1] < 1e-5\<close> false, so \<open>[1, NaN, 0, 1, 0, 0]\<close> takes the four-corner
  path; for the rectangle \<open>(0, 0, 10, 10)\<close> the target ends with \<open>y\<close> and \<open>height\<close> both
  \<open>NaN\<close>, and \<open>NaN >= 0\<close> is false.
\<close>

theorem general_path_nan_height:
  "\<not> (flt (md1 \<lparr>md0 = Fin 1 0, md1 = NaN, md2 = Fin 0 0, md3 = Fin 1 0, md4 = Fin 0 0, md5 = Fin 0 0\<rparr>) eps_f64
      \<and> flt (md2 \<lparr>md0 = Fin 1 0, md1 = NaN, md2 = Fin 0 0, md3 = Fin 1 0, md4 = Fin 0 0, md5 = Fin 0 0\<rparr>) eps_f64)
   \<and> applyTransform_static_f64
        (new_BoundingRect_f64 (Fin 0 0) (Fin 0 0) (Fin 10 0) (Fin 10 0))
        (new_BoundingRect_f64 (Fin 0 0) (Fin 0 0) (Fin 10 0) (Fin 10 0))
        (Some \<lparr>md0 = Fin 1 0, md1 = NaN, md2 = Fin 0 0, md3 = Fin 1 0, md4 = Fin 0 0, md5 = Fin 0 0\<rparr>)
      = \<lparr>rd_x = Fin 0 0, rd_y = NaN, rd_width = Fin 10 0, rd_height = NaN\<rparr>
   \<and> \<not> fge (rd_height (applyTransform_static_f64
        (new_BoundingRect_f64 (Fin 0 0) (Fin 0 0) (Fin 10 0) (Fin 10 0))
        (new_BoundingRect_f64 (Fin 0 0) (Fin 0 0) (Fin 10 0) (Fin 10 0))
        (Some \<lparr>md0 = Fin 1 0, md1 = NaN, md2 = Fin 0 0, md3 = Fin 1 0, md4 = Fin 0 0, md5 = Fin 0 0\<rparr>))) f64_zero"
  by code_simp

text \<open>
  C10, as amended. Whenever the static \<open>applyTransform\<close> takes the four-corner path, that
  is \<open>m\<close> is truthy and not (\<open>m[1] < 1e-5\<close> and \<open>m[2] < 1e-5\<close>), and the four transformed
  corners have finite coordinates (neither \<open>NaN\<close> nor an infinity), the target ends with
  \<open>width >= 0\<close> and \<open>height >= 0\<close>, in double arithmetic.
\<close>

theorem general_path_nonneg_extent:
  assumes "\<not> (flt (md1 m) eps_f64 \<and> flt (md2 m) eps_f64)"
    and "finite_corners source m"
  shows "applyTransform_static_f64 target source (Some m)
           = applyTransform_general_f64 target source m
       \<and> fge (rd_width (applyTransform_static_f64 target source (Some m))) f64_zero
       \<and> fge (rd_height (applyTransform_static_f64 target source (Some m))) f64_zero"
proof -
  have path: "applyTransform_static_f64 target source (Some m)
      = applyTransform_general_f64 target source m"
    using assms(1) by (auto simp add: applyTransform_static_f64_def)
  show ?thesis
    using applyTransform_general_f64_nonneg [OF assms(2), of target]
    by (simp add: path)
qed

theorem general_path_nonneg_extent_witness:
  "\<not> (flt (md1 \<lparr>md0 = Fin 0 0, md1 = Fin 1 0, md2 = Fin (- 1) 0, md3 = Fin 0 0, md4 = Fin 0 0, md5 = Fin 0 0\<rparr>) eps_f64
      \<and> flt (md2 \<lparr>md0 = Fin 0 0, md1 = Fin 1 0, md2 = Fin (- 1) 0, md3 = Fin 0 0, md4 = Fin 0 0, md5 = Fin 0 0\<rparr>) eps_f64)
   \<and> finite_corners (new_BoundingRect_f64 (Fin 1 0) (Fin 2 0) (Fin 3 0) (Fin 4 0))
        \<lparr>md0 = Fin 0 0, md1 = Fin 1 0, md2 = Fin (- 1) 0, md3 = Fin 0 0, md4 = Fin 0 0, md5 = Fin 0 0\<rparr>
   \<and> fge (rd_width (applyTransform_static_f64
        (new_BoundingRect_f64 (Fin 0 0) (Fin 0 0) (Fin 0 0) (Fin 0 0))
        (new_BoundingRect_f64 (Fin 1 0) (Fin 2 0) (Fin 3 0) (Fin 4 0))
        (Some \<lparr>md0 = Fin 0 0, md1 = Fin 1 0, md2 = Fin (- 1) 0, md3 = Fin 0 0, md4 = Fin 0 0, md5 = Fin 0 0\<rparr>))) f64_zero
   \<and> fge (rd_height (applyTransform_static_f64
        (new_BoundingRect_f64 (Fin 0 0) (Fin 0 0) (Fin 0 0) (Fin 0 0))
        (new_BoundingRect_f64 (Fin 1 0) (Fin 2 0) (Fin 3 0) (Fin 4 0))
        (Some \<lparr>md0 = Fin 0 0, md1 = Fin 1 0, md2 = Fin (- 1) 0, md3 = Fin 0 0, md4 = Fin 0 0, md5 = Fin 0 0\<rparr>))) f64_zero"
proof -
  have path: "\<not> (flt (md1 \<lparr>md0 = Fin 0 0, md1 = Fin 1 0, md2 = Fin (- 1) 0, md3 = Fin 0 0, md4 = Fin 0 0, md5 = Fin 0 0\<rparr>) eps_f64
      \<and> flt (md2 \<lparr>md0 = Fin 0 0, md1 = Fin 1 0, md2 = Fin (- 1) 0, md3 = Fin 0 0, md4 = Fin 0 0, md5 = Fin 0 0\<rparr>) eps_f64)"
    by code_simp
  have fin: "finite_corners (new_BoundingRect_f64 (Fin 1 0) (Fin 2 0) (Fin 3 0) (Fin 4 0))
        \<lparr>md0 = Fin 0 0, md1 = Fin 1 0, md2 = Fin (- 1) 0, md3 = Fin 0 0, md4 = Fin 0 0, md5 = Fin 0 0\<rparr>"
    by code_simp
  show ?thesis
    using path fin
      general_path_nonneg_extent [OF path fin,
        of "new_BoundingRect_f64 (Fin 0 0) (Fin 0 0) (Fin 0 0) (Fin 0 0)"]
    by blast
qed

end
